theory Spec2Isabelle
  imports Complex_Main
begin

section \<open>The GraphQL route of src/routes/graphql/index.ts\<close>

text \<open>
  The route declares four output types (memberType, Post, Profile, user), a root query
  object with a singular and a plural field per entity, and one POST handler that hands
  the request body to the execution engine. Every resolver is a single call of the
  Prisma client. The embedding keeps the three layers apart:
  \<^item> the rows and the client calls the resolvers use (\<open>findUnique\<close>, \<open>findMany\<close>), as
    state-passing functions over the stored rows;
  \<^item> the type and argument declarations of the schema, as data;
  \<^item> the resolvers and the handler, translated line by line.
\<close>

subsection \<open>Rows\<close>

text \<open>
  The columns are the ones the source reads or declares: the fields of the GraphQL output
  types, and the reference columns named in the where-clauses (\<open>userId\<close>,
  \<open>memberTypeId\<close>, \<open>authorId\<close>, \<open>subscriberId\<close>). \<open>Float\<close> columns are carried as
  \<^typ>\<open>real\<close>; no arithmetic is done on them.
\<close>

record memberType =
  memberType_id :: string
  discount :: real
  postsLimitPerMonth :: int

record post =
  post_id :: string
  post_title :: string
  post_content :: string
  post_authorId :: string

record profile =
  profile_id :: string
  isMale :: bool
  yearOfBirth :: int
  profile_userId :: string
  profile_memberTypeId :: string

record user =
  user_id :: string
  user_name :: string
  user_balance :: real

text \<open>A subscription edge: the row that both relation filters of \<open>user\<close> look into.\<close>

record subscribersOnAuthors =
  subscriberId :: string
  authorId :: string

text \<open>The state behind the \<open>prisma\<close> handle: the stored rows, in storage order.\<close>

record db =
  memberType_rows :: "memberType list"
  post_rows :: "post list"
  profile_rows :: "profile list"
  user_rows :: "user list"
  subscribersOnAuthors_rows :: "subscribersOnAuthors list"

subsection \<open>Values and errors\<close>

text \<open>
  What a resolver hands back to the engine: \<open>null\<close>, one row, or an array of rows.
  A rejected promise is an error value.
\<close>

datatype 'a js = Null | Obj 'a | Array "'a list"

datatype error = PrismaClientValidationError

type_synonym 'a resolved = "(error + 'a js) \<times> db"

text \<open>
  A property that holds a string when it holds one: \<open>parent.id\<close>,
  \<open>parent.memberTypeId\<close>, \<open>args.id\<close>. The parent objects of the nested resolvers are
  untyped in the source, so the property may also be missing (\<open>undefined\<close>) or \<open>null\<close>.
\<close>

datatype js_string = Undefined | JsNull | Str string

text \<open>Of a parent object only the property that the resolvers read is kept.\<close>

record user_parent =
  parent_id :: js_string

record profile_parent =
  parent_memberTypeId :: js_string

definition user_as_parent :: "user \<Rightarrow> user_parent" where
  "user_as_parent u = \<lparr>parent_id = Str (user_id u)\<rparr>"

definition profile_as_parent :: "profile \<Rightarrow> profile_parent" where
  "profile_as_parent p = \<lparr>parent_memberTypeId = Str (profile_memberTypeId p)\<rparr>"

text \<open>
  JavaScript truthiness of such a property, as \<open>if (parent.id)\<close> tests it: \<open>undefined\<close>,
  \<open>null\<close> and the empty string are falsy.
\<close>

fun truthy :: "js_string \<Rightarrow> bool" where
  "truthy Undefined = False"
| "truthy JsNull = False"
| "truthy (Str s) = (s \<noteq> [])"

subsection \<open>The Prisma client\<close>

text \<open>
  Where-clauses are the object literals of the source. Every column they name is a
  required string column. A condition whose value is \<open>undefined\<close> is no condition in
  \<open>findMany\<close>; \<open>null\<close> is not a value of a required column, and a call that passes it is
  rejected; \<open>findUnique\<close> needs the string value of its unique column and rejects the call
  without it.
\<close>

datatype subscribersOnAuthors_where =
    Where_subscriberId js_string    \<comment> \<open>\<open>{ subscriberId: v }\<close>\<close>
  | Where_authorId js_string        \<comment> \<open>\<open>{ authorId: v }\<close>\<close>

datatype user_where =
    Where_subscribedToUser_some subscribersOnAuthors_where
      \<comment> \<open>\<open>{ subscribedToUser: { some: w } }\<close>\<close>
  | Where_userSubscribedTo_some subscribersOnAuthors_where
      \<comment> \<open>\<open>{ userSubscribedTo: { some: w } }\<close>\<close>

datatype post_where = Where_post_authorId js_string    \<comment> \<open>\<open>{ authorId: v }\<close>\<close>

datatype memberType_where_unique = Where_memberType_id js_string
datatype user_where_unique = Where_user_id js_string
datatype post_where_unique = Where_post_id js_string
datatype profile_where_unique =
    Where_profile_id js_string
  | Where_profile_userId js_string

text \<open>
  The two relation fields of \<open>user\<close> are lists of subscription edges. Which column of the
  edge refers back to the user is declared in the datamodel, outside this file's source:
  the client functions take that declaration as a parameter.
\<close>

datatype edge_column = Col_subscriberId | Col_authorId

record datamodel =
  userSubscribedTo_column :: edge_column
  subscribedToUser_column :: edge_column

fun column_value :: "edge_column \<Rightarrow> subscribersOnAuthors \<Rightarrow> string" where
  "column_value Col_subscriberId e = subscriberId e"
| "column_value Col_authorId e = authorId e"

text \<open>
  Modelled from the spec: the datamodel declaration (prisma/schema.prisma) is not among
  the source files. The spec (section 3) gives a subscription edge as the pair (subscriber
  identifier, target identifier) in which a user takes part as subscriber and as target.
  The where-clauses of the source filter \<open>subscribedToUser\<close> by \<open>subscriberId\<close> and
  \<open>userSubscribedTo\<close> by \<open>authorId\<close>, so each relation field is joined on the other
  column: the edges of \<open>u.userSubscribedTo\<close> have \<open>u\<close> as subscriber, those of
  \<open>u.subscribedToUser\<close> have \<open>u\<close> as author (the target).
\<close>

definition prisma_datamodel :: datamodel where
  "prisma_datamodel =
     \<lparr>userSubscribedTo_column = Col_subscriberId, subscribedToUser_column = Col_authorId\<rparr>"

definition related :: "edge_column \<Rightarrow> user \<Rightarrow> db \<Rightarrow> subscribersOnAuthors list" where
  "related c u s = filter (\<lambda>e. column_value c e = user_id u) (subscribersOnAuthors_rows s)"

text \<open>
  Validation comes first: a where-clause with \<open>null\<close> for a column is refused before any
  row is read. The matching functions are only reached with a valid clause; their \<open>null\<close>
  equations match nothing.
\<close>

fun value_valid :: "js_string \<Rightarrow> bool" where
  "value_valid JsNull = False"
| "value_valid v = True"

fun subscribersOnAuthors_where_valid :: "subscribersOnAuthors_where \<Rightarrow> bool" where
  "subscribersOnAuthors_where_valid (Where_subscriberId v) = value_valid v"
| "subscribersOnAuthors_where_valid (Where_authorId v) = value_valid v"

fun user_where_valid :: "user_where \<Rightarrow> bool" where
  "user_where_valid (Where_subscribedToUser_some w) = subscribersOnAuthors_where_valid w"
| "user_where_valid (Where_userSubscribedTo_some w) = subscribersOnAuthors_where_valid w"

fun post_where_valid :: "post_where \<Rightarrow> bool" where
  "post_where_valid (Where_post_authorId v) = value_valid v"

fun edge_matches :: "subscribersOnAuthors_where \<Rightarrow> subscribersOnAuthors \<Rightarrow> bool" where
  "edge_matches (Where_subscriberId Undefined) e = True"
| "edge_matches (Where_subscriberId JsNull) e = False"
| "edge_matches (Where_subscriberId (Str v)) e = (subscriberId e = v)"
| "edge_matches (Where_authorId Undefined) e = True"
| "edge_matches (Where_authorId JsNull) e = False"
| "edge_matches (Where_authorId (Str v)) e = (authorId e = v)"

fun user_matches :: "datamodel \<Rightarrow> db \<Rightarrow> user_where \<Rightarrow> user \<Rightarrow> bool" where
  "user_matches dm s (Where_subscribedToUser_some w) u =
     list_ex (edge_matches w) (related (subscribedToUser_column dm) u s)"
| "user_matches dm s (Where_userSubscribedTo_some w) u =
     list_ex (edge_matches w) (related (userSubscribedTo_column dm) u s)"

fun post_matches :: "post_where \<Rightarrow> post \<Rightarrow> bool" where
  "post_matches (Where_post_authorId Undefined) p = True"
| "post_matches (Where_post_authorId JsNull) p = False"
| "post_matches (Where_post_authorId (Str v)) p = (post_authorId p = v)"

text \<open>\<open>findUnique\<close> on a key: the first row with that key, or \<open>null\<close>.\<close>

definition unique_row :: "('r \<Rightarrow> string) \<Rightarrow> js_string \<Rightarrow> 'r list \<Rightarrow> error + 'r js" where
  "unique_row key v rows =
     (case v of
        Undefined \<Rightarrow> Inl PrismaClientValidationError
      | JsNull \<Rightarrow> Inl PrismaClientValidationError
      | Str k \<Rightarrow> (case find (\<lambda>r. key r = k) rows of None \<Rightarrow> Inr Null | Some r \<Rightarrow> Inr (Obj r)))"

fun memberType_findUnique :: "memberType_where_unique \<Rightarrow> db \<Rightarrow> memberType resolved" where
  "memberType_findUnique (Where_memberType_id v) s =
     (unique_row memberType_id v (memberType_rows s), s)"

fun user_findUnique :: "user_where_unique \<Rightarrow> db \<Rightarrow> user resolved" where
  "user_findUnique (Where_user_id v) s = (unique_row user_id v (user_rows s), s)"

fun post_findUnique :: "post_where_unique \<Rightarrow> db \<Rightarrow> post resolved" where
  "post_findUnique (Where_post_id v) s = (unique_row post_id v (post_rows s), s)"

fun profile_findUnique :: "profile_where_unique \<Rightarrow> db \<Rightarrow> profile resolved" where
  "profile_findUnique (Where_profile_id v) s = (unique_row profile_id v (profile_rows s), s)"
| "profile_findUnique (Where_profile_userId v) s =
     (unique_row profile_userId v (profile_rows s), s)"

text \<open>
  \<open>findMany\<close>: every row (no argument), or the rows that match a valid where-clause; an
  invalid where-clause rejects the call.
\<close>

definition memberType_findMany :: "db \<Rightarrow> memberType resolved" where
  "memberType_findMany s = (Inr (Array (memberType_rows s)), s)"

definition profile_findMany :: "db \<Rightarrow> profile resolved" where
  "profile_findMany s = (Inr (Array (profile_rows s)), s)"

fun post_findMany :: "post_where option \<Rightarrow> db \<Rightarrow> post resolved" where
  "post_findMany None s = (Inr (Array (post_rows s)), s)"
| "post_findMany (Some w) s =
     (if post_where_valid w then Inr (Array (filter (post_matches w) (post_rows s)))
      else Inl PrismaClientValidationError, s)"

fun user_findMany :: "datamodel \<Rightarrow> user_where option \<Rightarrow> db \<Rightarrow> user resolved" where
  "user_findMany dm None s = (Inr (Array (user_rows s)), s)"
| "user_findMany dm (Some w) s =
     (if user_where_valid w then Inr (Array (filter (user_matches dm s w) (user_rows s)))
      else Inl PrismaClientValidationError, s)"

subsection \<open>The schema declarations\<close>

datatype gql_type =
    UUIDType
  | GraphQLString
  | GraphQLFloat
  | GraphQLInt
  | GraphQLBoolean
  | GraphQLEnumType string "string list"
  | GraphQLObjectType string    \<comment> \<open>by name; the fields are listed apart\<close>
  | GraphQLNonNull gql_type
  | GraphQLList gql_type

record field =
  field_type :: gql_type
  field_args :: "(string \<times> gql_type) list"

definition MemberTypeId :: gql_type where
  "MemberTypeId = GraphQLEnumType ''MemberTypeId'' [''BASIC'', ''BUSINESS'']"

definition MemberType :: gql_type where
  "MemberType = GraphQLObjectType ''memberType''"

definition MemberType_fields :: "(string \<times> field) list" where
  "MemberType_fields =
     [(''id'', \<lparr>field_type = GraphQLNonNull MemberTypeId, field_args = []\<rparr>),
      (''discount'', \<lparr>field_type = GraphQLNonNull GraphQLFloat, field_args = []\<rparr>),
      (''postsLimitPerMonth'', \<lparr>field_type = GraphQLNonNull GraphQLInt, field_args = []\<rparr>)]"

definition MemberTypeListType :: gql_type where
  "MemberTypeListType = GraphQLList MemberType"

definition Post :: gql_type where
  "Post = GraphQLObjectType ''Post''"

definition Post_fields :: "(string \<times> field) list" where
  "Post_fields =
     [(''id'', \<lparr>field_type = GraphQLNonNull UUIDType, field_args = []\<rparr>),
      (''title'', \<lparr>field_type = GraphQLNonNull GraphQLString, field_args = []\<rparr>),
      (''content'', \<lparr>field_type = GraphQLNonNull GraphQLString, field_args = []\<rparr>)]"

definition Posts :: gql_type where
  "Posts = GraphQLList (GraphQLNonNull Post)"

definition Profile :: gql_type where
  "Profile = GraphQLObjectType ''Profile''"

definition Profile_fields :: "(string \<times> field) list" where
  "Profile_fields =
     [(''id'', \<lparr>field_type = GraphQLNonNull UUIDType, field_args = []\<rparr>),
      (''isMale'', \<lparr>field_type = GraphQLNonNull GraphQLBoolean, field_args = []\<rparr>),
      (''yearOfBirth'', \<lparr>field_type = GraphQLNonNull GraphQLInt, field_args = []\<rparr>),
      (''memberType'', \<lparr>field_type = GraphQLNonNull MemberType, field_args = []\<rparr>)]"

definition ProfileList :: gql_type where
  "ProfileList = GraphQLList Profile"

definition User :: gql_type where
  "User = GraphQLObjectType ''user''"

definition User_fields :: "(string \<times> field) list" where
  "User_fields =
     [(''id'', \<lparr>field_type = GraphQLNonNull UUIDType, field_args = []\<rparr>),
      (''name'', \<lparr>field_type = GraphQLNonNull GraphQLString, field_args = []\<rparr>),
      (''balance'', \<lparr>field_type = GraphQLNonNull GraphQLFloat, field_args = []\<rparr>),
      (''profile'', \<lparr>field_type = Profile, field_args = []\<rparr>),
      (''posts'', \<lparr>field_type = GraphQLNonNull Posts, field_args = []\<rparr>),
      (''userSubscribedTo'',
         \<lparr>field_type = GraphQLNonNull (GraphQLList User), field_args = []\<rparr>),
      (''subscribedToUser'',
         \<lparr>field_type = GraphQLNonNull (GraphQLList User), field_args = []\<rparr>)]"

definition UserList :: gql_type where
  "UserList = GraphQLList User"

definition RootQuery_fields :: "(string \<times> field) list" where
  "RootQuery_fields =
     [(''memberTypes'', \<lparr>field_type = MemberTypeListType, field_args = []\<rparr>),
      (''memberType'', \<lparr>field_type = MemberType, field_args = [(''id'', MemberTypeId)]\<rparr>),
      (''users'', \<lparr>field_type = UserList, field_args = []\<rparr>),
      (''user'', \<lparr>field_type = User, field_args = [(''id'', GraphQLNonNull UUIDType)]\<rparr>),
      (''posts'', \<lparr>field_type = Posts, field_args = []\<rparr>),
      (''post'', \<lparr>field_type = Post, field_args = [(''id'', GraphQLNonNull UUIDType)]\<rparr>),
      (''profiles'', \<lparr>field_type = ProfileList, field_args = []\<rparr>),
      (''profile'',
         \<lparr>field_type = Profile, field_args = [(''id'', GraphQLNonNull UUIDType)]\<rparr>)]"

record gql_schema =
  query_name :: string
  query_fields :: "(string \<times> field) list"

definition schema :: gql_schema where
  "schema = \<lparr>query_name = ''RootQuery'', query_fields = RootQuery_fields\<rparr>"

text \<open>Reading the declarations: an argument is required when its type is non-null.\<close>

fun is_non_null :: "gql_type \<Rightarrow> bool" where
  "is_non_null (GraphQLNonNull t) = True"
| "is_non_null t = False"

fun is_list :: "gql_type \<Rightarrow> bool" where
  "is_list (GraphQLList t) = True"
| "is_list t = False"

definition root_field :: "string \<Rightarrow> field option" where
  "root_field n = map_of (query_fields schema) n"

definition arg_type :: "string \<Rightarrow> string \<Rightarrow> gql_type option" where
  "arg_type n a = (case root_field n of None \<Rightarrow> None | Some f \<Rightarrow> map_of (field_args f) a)"

definition arg_required :: "string \<Rightarrow> string \<Rightarrow> bool" where
  "arg_required n a = (case arg_type n a of None \<Rightarrow> False | Some t \<Rightarrow> is_non_null t)"

subsection \<open>Field completion\<close>

text \<open>
  The execution engine is the graphql library. Of it, only the completion of one resolved
  field is needed, as the spec (sections 4.4 and 7) describes it: a rejected resolver is
  one entry of \<open>errors\<close> and the field is \<open>null\<close>; \<open>null\<close> for a non-null type is one
  entry of \<open>errors\<close>; \<open>null\<close> for a nullable type is \<open>null\<close> and no error; a list type
  takes an array. Of the sub-selections of a resolved row only the \<open>id\<close> leaf of a member
  type is followed (below); an enum type serialises the values it lists and refuses any
  other.
\<close>

datatype gql_error =
    ResolverError error
  | CannotReturnNull
  | ExpectedIterable
  | EnumCannotRepresentValue

fun completeValue :: "gql_type \<Rightarrow> 'a js \<Rightarrow> gql_error + 'a js" where
  "completeValue (GraphQLNonNull t) v =
     (case completeValue t v of Inr Null \<Rightarrow> Inl CannotReturnNull | r \<Rightarrow> r)"
| "completeValue t Null = Inr Null"
| "completeValue (GraphQLList t) (Obj x) = Inl ExpectedIterable"
| "completeValue t v = Inr v"

record 'a field_result =
  data :: "'a js"
  errors :: "gql_error list"

definition executeField :: "gql_type \<Rightarrow> error + 'a js \<Rightarrow> 'a field_result" where
  "executeField t r =
     (case r of
        Inl e \<Rightarrow> \<lparr>data = Null, errors = [ResolverError e]\<rparr>
      | Inr v \<Rightarrow>
          (case completeValue t v of
             Inl ge \<Rightarrow> \<lparr>data = Null, errors = [ge]\<rparr>
           | Inr v' \<Rightarrow> \<lparr>data = v', errors = []\<rparr>))"

fun enum_values :: "gql_type \<Rightarrow> string list option" where
  "enum_values (GraphQLEnumType n vs) = Some vs"
| "enum_values (GraphQLNonNull t) = enum_values t"
| "enum_values t = None"

text \<open>
  The leaf \<open>id\<close> of a resolved member type: the field has no resolver of its own, so the
  engine reads the property \<open>id\<close> of the row and serialises it with the declared enum
  type.
\<close>

definition MemberType_id_leaf :: "memberType \<Rightarrow> string field_result option" where
  "MemberType_id_leaf m =
     (case map_of MemberType_fields ''id'' of
        None \<Rightarrow> None
      | Some f \<Rightarrow>
          (case enum_values (field_type f) of
             None \<Rightarrow> None
           | Some vs \<Rightarrow>
               Some (if memberType_id m \<in> set vs
                     then \<lparr>data = Obj (memberType_id m), errors = []\<rparr>
                     else \<lparr>data = Null, errors = [EnumCannotRepresentValue]\<rparr>)))"

subsection \<open>The resolvers\<close>

text \<open>
  Each resolver takes what the source reads (the parent object or the \<open>id\<close> argument) and
  the state behind the handle, \<open>context.prisma\<close> for the nested resolvers and the
  \<open>prisma\<close> of the plugin's closure for the root ones: the same handle.
\<close>

definition Profile_memberType_resolve :: "profile_parent \<Rightarrow> db \<Rightarrow> memberType resolved" where
  "Profile_memberType_resolve parent s =
     memberType_findUnique (Where_memberType_id (parent_memberTypeId parent)) s"

definition User_profile_resolve :: "user_parent \<Rightarrow> db \<Rightarrow> profile resolved" where
  "User_profile_resolve parent s =
     profile_findUnique (Where_profile_userId (parent_id parent)) s"

definition User_posts_resolve :: "user_parent \<Rightarrow> db \<Rightarrow> post resolved" where
  "User_posts_resolve parent s =
     (if truthy (parent_id parent)
      then post_findMany (Some (Where_post_authorId (parent_id parent))) s
      else (Inr Null, s))"

definition User_userSubscribedTo_resolve ::
    "datamodel \<Rightarrow> user_parent \<Rightarrow> db \<Rightarrow> user resolved" where
  "User_userSubscribedTo_resolve dm parent s =
     user_findMany dm
       (Some (Where_subscribedToUser_some (Where_subscriberId (parent_id parent)))) s"

definition User_subscribedToUser_resolve ::
    "datamodel \<Rightarrow> user_parent \<Rightarrow> db \<Rightarrow> user resolved" where
  "User_subscribedToUser_resolve dm parent s =
     user_findMany dm
       (Some (Where_userSubscribedTo_some (Where_authorId (parent_id parent)))) s"

definition RootQuery_memberTypes_resolve :: "db \<Rightarrow> memberType resolved" where
  "RootQuery_memberTypes_resolve s = memberType_findMany s"

text \<open>
  The \<open>id\<close> argument of \<open>memberType\<close> is nullable: \<open>args.id\<close> may be \<open>undefined\<close> (left
  out) or \<open>null\<close>. The arguments of the other singular fields are non-null strings.
\<close>

definition RootQuery_memberType_resolve :: "js_string \<Rightarrow> db \<Rightarrow> memberType resolved" where
  "RootQuery_memberType_resolve args_id s =
     memberType_findUnique (Where_memberType_id args_id) s"

definition RootQuery_users_resolve :: "datamodel \<Rightarrow> db \<Rightarrow> user resolved" where
  "RootQuery_users_resolve dm s = user_findMany dm None s"

definition RootQuery_user_resolve :: "string \<Rightarrow> db \<Rightarrow> user resolved" where
  "RootQuery_user_resolve args_id s = user_findUnique (Where_user_id (Str args_id)) s"

definition RootQuery_posts_resolve :: "db \<Rightarrow> post resolved" where
  "RootQuery_posts_resolve s = post_findMany None s"

definition RootQuery_post_resolve :: "string \<Rightarrow> db \<Rightarrow> post resolved" where
  "RootQuery_post_resolve args_id s = post_findUnique (Where_post_id (Str args_id)) s"

definition RootQuery_profiles_resolve :: "db \<Rightarrow> profile resolved" where
  "RootQuery_profiles_resolve s = profile_findMany s"

definition RootQuery_profile_resolve :: "string \<Rightarrow> db \<Rightarrow> profile resolved" where
  "RootQuery_profile_resolve args_id s =
     profile_findUnique (Where_profile_id (Str args_id)) s"

subsection \<open>The handler\<close>

text \<open>
  The request is an extensible record: whatever else the server puts on it (headers,
  parameters, address) lives in the extension. The engine is a parameter; the handler
  passes it the schema, the two parts of the body and the handle.
\<close>

record 'v gql_body =
  query :: string
  variables :: "'v option"

record 'v request =
  body :: "'v gql_body"

record 'v graphql_args =
  args_schema :: gql_schema
  args_source :: string
  args_variableValues :: "'v option"

definition handler ::
    "('v graphql_args \<Rightarrow> db \<Rightarrow> 'r \<times> db) \<Rightarrow> ('v, 'z) request_scheme \<Rightarrow> db \<Rightarrow> 'r \<times> db" where
  "handler graphql req s =
     graphql \<lparr>args_schema = schema, args_source = query (body req),
              args_variableValues = variables (body req)\<rparr> s"

subsection \<open>Reading results, and the spec's wording of the subscription fields\<close>

text \<open>The rows of an array result; nothing for \<open>null\<close>, a single row or an error.\<close>

fun rows_of :: "error + 'a js \<Rightarrow> 'a list" where
  "rows_of (Inr (Array xs)) = xs"
| "rows_of r = []"

text \<open>Completion of a resolved field with the type its object type declares for it.\<close>

definition executeFieldOf ::
    "(string \<times> field) list \<Rightarrow> string \<Rightarrow> error + 'a js \<Rightarrow> 'a field_result option" where
  "executeFieldOf decls n r = map_option (\<lambda>f. executeField (field_type f) r) (map_of decls n)"

text \<open>
  The two subscription fields as the spec words them (section 4.3), for comparison with
  the resolvers: \<open>userSubscribedTo\<close> as the users with an edge that has this user as
  target, \<open>subscribedToUser\<close> as the users with an edge that has this user as subscriber.
  The target of an edge is its \<open>authorId\<close>.
\<close>

definition spec_userSubscribedTo :: "db \<Rightarrow> user \<Rightarrow> user list" where
  "spec_userSubscribedTo s u =
     filter (\<lambda>w. list_ex (\<lambda>e. authorId e = user_id u \<and> subscriberId e = user_id w)
                    (subscribersOnAuthors_rows s)) (user_rows s)"

definition spec_subscribedToUser :: "db \<Rightarrow> user \<Rightarrow> user list" where
  "spec_subscribedToUser s u =
     filter (\<lambda>w. list_ex (\<lambda>e. subscriberId e = user_id u \<and> authorId e = user_id w)
                    (subscribersOnAuthors_rows s)) (user_rows s)"

subsection \<open>A small stored state\<close>

text \<open>
  Two users, one profile, one post, one member type, and one subscription edge: alice
  (\<open>u1\<close>) is the subscriber, bob (\<open>u2\<close>) the author.
\<close>

definition alice :: user where
  "alice = \<lparr>user_id = ''u1'', user_name = ''alice'', user_balance = 10\<rparr>"

definition bob :: user where
  "bob = \<lparr>user_id = ''u2'', user_name = ''bob'', user_balance = 20\<rparr>"

definition ex_db :: db where
  "ex_db =
     \<lparr>memberType_rows =
        [\<lparr>memberType_id = ''BASIC'', discount = 2, postsLimitPerMonth = 10\<rparr>],
      post_rows =
        [\<lparr>post_id = ''p1'', post_title = ''t'', post_content = ''c'', post_authorId = ''u1''\<rparr>],
      profile_rows =
        [\<lparr>profile_id = ''f1'', isMale = True, yearOfBirth = 1990, profile_userId = ''u1'',
          profile_memberTypeId = ''BASIC''\<rparr>],
      user_rows = [alice, bob],
      subscribersOnAuthors_rows = [\<lparr>subscriberId = ''u1'', authorId = ''u2''\<rparr>]\<rparr>"

text \<open>Two requests with the same body and different extensions, and a sample engine.\<close>

definition ex_req1 :: "((string \<times> string) list, string) request_scheme" where
  "ex_req1 =
     \<lparr>body = \<lparr>query = ''{ users { id } }'', variables = None\<rparr>, \<dots> = ''127.0.0.1''\<rparr>"

definition ex_req2 :: "((string \<times> string) list, string) request_scheme" where
  "ex_req2 =
     \<lparr>body = \<lparr>query = ''{ users { id } }'', variables = None\<rparr>, \<dots> = ''10.0.0.7''\<rparr>"

definition ex_graphql ::
    "(string \<times> string) list graphql_args \<Rightarrow> db \<Rightarrow> (string \<times> nat) \<times> db" where
  "ex_graphql a s = ((args_source a, length (user_rows s)), s)"

section \<open>Properties\<close>

subsection \<open>Lookups by key\<close>

lemmas ex_defs = ex_db_def alice_def bob_def

lemma unique_row_find:
  "unique_row key (Str k) rows =
     (case find (\<lambda>r. key r = k) rows of None \<Rightarrow> Inr Null | Some r \<Rightarrow> Inr (Obj r))"
  by (simp add: unique_row_def)

lemma unique_row_absent:
  "k \<notin> key ` set rows \<Longrightarrow> unique_row key (Str k) rows = Inr Null"
  by (auto simp: unique_row_def find_None_iff split: option.splits)

lemma unique_row_present:
  "k \<in> key ` set rows \<Longrightarrow>
     \<exists>r. unique_row key (Str k) rows = Inr (Obj r) \<and> r \<in> set rows \<and> key r = k"
  by (auto simp: unique_row_def find_None_iff find_Some_iff split: option.splits)

lemma unique_row_undefined:
  "unique_row key Undefined rows = Inl PrismaClientValidationError"
  "unique_row key JsNull rows = Inl PrismaClientValidationError"
  by (simp_all add: unique_row_def)

lemma post_matches_authorId:
  "post_matches (Where_post_authorId (Str v)) = (\<lambda>p. post_authorId p = v)"
  by (rule ext) simp

subsection \<open>Declared types and completion\<close>

lemma root_fields:
  "root_field ''memberTypes'' = Some \<lparr>field_type = MemberTypeListType, field_args = []\<rparr>"
  "root_field ''memberType'' =
     Some \<lparr>field_type = MemberType, field_args = [(''id'', MemberTypeId)]\<rparr>"
  "root_field ''users'' = Some \<lparr>field_type = UserList, field_args = []\<rparr>"
  "root_field ''user'' =
     Some \<lparr>field_type = User, field_args = [(''id'', GraphQLNonNull UUIDType)]\<rparr>"
  "root_field ''posts'' = Some \<lparr>field_type = Posts, field_args = []\<rparr>"
  "root_field ''post'' =
     Some \<lparr>field_type = Post, field_args = [(''id'', GraphQLNonNull UUIDType)]\<rparr>"
  "root_field ''profiles'' = Some \<lparr>field_type = ProfileList, field_args = []\<rparr>"
  "root_field ''profile'' =
     Some \<lparr>field_type = Profile, field_args = [(''id'', GraphQLNonNull UUIDType)]\<rparr>"
  by (simp_all add: root_field_def schema_def RootQuery_fields_def)

lemma executeFieldOf_root:
  "executeFieldOf (query_fields schema) n r =
     map_option (\<lambda>f. executeField (field_type f) r) (root_field n)"
  by (simp add: executeFieldOf_def root_field_def)

lemma execute_root_null:
  "executeFieldOf (query_fields schema) ''user'' (Inr Null) =
     Some \<lparr>data = (Null :: user js), errors = []\<rparr>"
  "executeFieldOf (query_fields schema) ''post'' (Inr Null) =
     Some \<lparr>data = (Null :: post js), errors = []\<rparr>"
  "executeFieldOf (query_fields schema) ''profile'' (Inr Null) =
     Some \<lparr>data = (Null :: profile js), errors = []\<rparr>"
  "executeFieldOf (query_fields schema) ''memberType'' (Inr Null) =
     Some \<lparr>data = (Null :: memberType js), errors = []\<rparr>"
  by (simp_all add: executeFieldOf_root root_fields executeField_def
      User_def Post_def Profile_def MemberType_def)

lemma execute_root_array:
  "executeFieldOf (query_fields schema) ''users'' (Inr (Array us)) =
     Some \<lparr>data = Array (us :: user list), errors = []\<rparr>"
  "executeFieldOf (query_fields schema) ''posts'' (Inr (Array ps)) =
     Some \<lparr>data = Array (ps :: post list), errors = []\<rparr>"
  "executeFieldOf (query_fields schema) ''profiles'' (Inr (Array fs)) =
     Some \<lparr>data = Array (fs :: profile list), errors = []\<rparr>"
  "executeFieldOf (query_fields schema) ''memberTypes'' (Inr (Array ms)) =
     Some \<lparr>data = Array (ms :: memberType list), errors = []\<rparr>"
  by (simp_all add: executeFieldOf_root root_fields executeField_def
      UserList_def Posts_def ProfileList_def MemberTypeListType_def)

lemma execute_root_user_obj:
  "executeFieldOf (query_fields schema) ''user'' (Inr (Obj u)) =
     Some \<lparr>data = Obj (u :: user), errors = []\<rparr>"
  by (simp add: executeFieldOf_root root_fields executeField_def User_def)

lemma execute_nested_obj:
  "executeFieldOf User_fields ''profile'' (Inr (Obj p)) =
     Some \<lparr>data = Obj (p :: profile), errors = []\<rparr>"
  "executeFieldOf Profile_fields ''memberType'' (Inr (Obj m)) =
     Some \<lparr>data = Obj (m :: memberType), errors = []\<rparr>"
  by (simp_all add: executeFieldOf_def User_fields_def Profile_fields_def executeField_def
      Profile_def MemberType_def)

text \<open>
  \<open>User.posts\<close> is declared non-null: the \<open>null\<close> of the guarded branch is an entry of
  \<open>errors\<close> for the engine, not an empty list.
\<close>

lemma User_posts_null_is_error:
  "executeFieldOf User_fields ''posts'' (Inr (Null :: post js)) =
     Some \<lparr>data = Null, errors = [CannotReturnNull]\<rparr>"
  by (simp add: executeFieldOf_def User_fields_def executeField_def Posts_def)

subsection \<open>The subscription fields\<close>

lemma userSubscribedTo_rows:
  "fst (User_userSubscribedTo_resolve prisma_datamodel (user_as_parent u) s) =
     Inr (Array (filter (\<lambda>w. \<exists>e \<in> set (subscribersOnAuthors_rows s).
                     subscriberId e = user_id u \<and> authorId e = user_id w) (user_rows s)))"
  by (auto simp: User_userSubscribedTo_resolve_def prisma_datamodel_def user_as_parent_def
      related_def list_ex_iff intro!: filter_cong)

lemma subscribedToUser_rows:
  "fst (User_subscribedToUser_resolve prisma_datamodel (user_as_parent u) s) =
     Inr (Array (filter (\<lambda>w. \<exists>e \<in> set (subscribersOnAuthors_rows s).
                     authorId e = user_id u \<and> subscriberId e = user_id w) (user_rows s)))"
  by (auto simp: User_subscribedToUser_resolve_def prisma_datamodel_def user_as_parent_def
      related_def list_ex_iff intro!: filter_cong)

text \<open>
  Claim C1, as stated: \<open>userSubscribedTo\<close> of a user U is exactly the set of users W with
  a subscription edge that has U as target, and \<open>subscribedToUser\<close> of U is exactly the set
  of users W with an edge that has U as subscriber. On the stored state with the single
  edge (subscriber alice, author bob) both halves fail for alice: the resolver of
  \<open>userSubscribedTo\<close> returns bob where the stated set is empty, and the resolver of
  \<open>subscribedToUser\<close> returns nothing where the stated set holds bob.
\<close>

theorem subscription_fields_as_stated_counterexample:
  "set (rows_of (fst (User_userSubscribedTo_resolve prisma_datamodel (user_as_parent alice) ex_db)))
     \<noteq> set (spec_userSubscribedTo ex_db alice)
   \<and> set (rows_of (fst (User_subscribedToUser_resolve prisma_datamodel (user_as_parent alice) ex_db)))
     \<noteq> set (spec_subscribedToUser ex_db alice)"
  by (simp add: userSubscribedTo_rows subscribedToUser_rows
      spec_userSubscribedTo_def spec_subscribedToUser_def ex_defs)

text \<open>
  The first half of the claim fails whichever column the datamodel joins the relation
  fields on: the where-clause compares the parent's identifier with \<open>subscriberId\<close>.
\<close>

lemma userSubscribedTo_as_stated_fails_for_any_datamodel:
  "set (rows_of (fst (User_userSubscribedTo_resolve dm (user_as_parent alice) ex_db)))
     \<noteq> set (spec_userSubscribedTo ex_db alice)"
  by (cases "subscribedToUser_column dm")
     (simp_all add: User_userSubscribedTo_resolve_def user_as_parent_def ex_defs
      spec_userSubscribedTo_def related_def)

text \<open>
  Claim C1, amended: the roles are the other way round. For every user U,
  \<open>userSubscribedTo\<close> resolves to an array holding exactly the stored users W such that an
  edge exists with U as subscriber and W as author (target), and \<open>subscribedToUser\<close>
  resolves to an array holding exactly the stored users W such that an edge exists with U
  as author (target) and W as subscriber.
\<close>

theorem subscription_fields_resolve:
  "(\<exists>rows. fst (User_userSubscribedTo_resolve prisma_datamodel (user_as_parent u) s)
             = Inr (Array rows)
      \<and> set rows = {w \<in> set (user_rows s). \<exists>e \<in> set (subscribersOnAuthors_rows s).
                       subscriberId e = user_id u \<and> authorId e = user_id w})
 \<and> (\<exists>rows. fst (User_subscribedToUser_resolve prisma_datamodel (user_as_parent u) s)
             = Inr (Array rows)
      \<and> set rows = {w \<in> set (user_rows s). \<exists>e \<in> set (subscribersOnAuthors_rows s).
                       authorId e = user_id u \<and> subscriberId e = user_id w})"
  by (simp add: userSubscribedTo_rows subscribedToUser_rows)

text \<open>
  Claim C2: the two relation fields are inverse. For stored users A and B and one state,
  if A is in the list resolved for B's \<open>subscribedToUser\<close>, then B is in the list resolved
  for A's \<open>userSubscribedTo\<close>.
\<close>

theorem subscription_fields_inverse:
  assumes "b \<in> set (user_rows s)"
    and "a \<in> set (rows_of
           (fst (User_subscribedToUser_resolve prisma_datamodel (user_as_parent b) s)))"
  shows "b \<in> set (rows_of
           (fst (User_userSubscribedTo_resolve prisma_datamodel (user_as_parent a) s)))"
  using assms by (auto simp: subscribedToUser_rows userSubscribedTo_rows)

theorem subscription_fields_inverse_witness:
  "bob \<in> set (user_rows ex_db)
   \<and> alice \<in> set (rows_of
        (fst (User_subscribedToUser_resolve prisma_datamodel (user_as_parent bob) ex_db)))
   \<and> bob \<in> set (rows_of
        (fst (User_userSubscribedTo_resolve prisma_datamodel (user_as_parent alice) ex_db)))"
proof -
  have h1: "bob \<in> set (user_rows ex_db)"
    by (simp add: ex_defs)
  have h2: "alice \<in> set (rows_of
      (fst (User_subscribedToUser_resolve prisma_datamodel (user_as_parent bob) ex_db)))"
    by (simp add: subscribedToUser_rows) (simp add: ex_defs)
  from subscription_fields_inverse [OF h1 h2] h1 h2 show ?thesis by simp
qed

text \<open>
  The other direction holds as well, for a stored user A: the two fields list the same
  edges from their two ends.
\<close>

lemma subscription_fields_inverse_converse:
  assumes "a \<in> set (user_rows s)"
    and "b \<in> set (rows_of
           (fst (User_userSubscribedTo_resolve prisma_datamodel (user_as_parent a) s)))"
  shows "a \<in> set (rows_of
           (fst (User_subscribedToUser_resolve prisma_datamodel (user_as_parent b) s)))"
  using assms by (auto simp: subscribedToUser_rows userSubscribedTo_rows)

subsection \<open>Root lookups\<close>

text \<open>
  Claim C3: for an identifier that no stored row has, each singular root lookup (user,
  post, profile, memberType) resolves to \<open>null\<close> and its completion adds nothing to
  \<open>errors\<close>; each plural root lookup (users, posts, profiles, memberTypes) resolves to an
  array, the stored rows, possibly none, and never to \<open>null\<close>.
\<close>

theorem root_lookups_absent_null_plural_list:
  "(i \<notin> user_id ` set (user_rows s) \<longrightarrow>
      executeFieldOf (query_fields schema) ''user'' (fst (RootQuery_user_resolve i s))
        = Some \<lparr>data = Null, errors = []\<rparr>)
 \<and> (i \<notin> post_id ` set (post_rows s) \<longrightarrow>
      executeFieldOf (query_fields schema) ''post'' (fst (RootQuery_post_resolve i s))
        = Some \<lparr>data = Null, errors = []\<rparr>)
 \<and> (i \<notin> profile_id ` set (profile_rows s) \<longrightarrow>
      executeFieldOf (query_fields schema) ''profile'' (fst (RootQuery_profile_resolve i s))
        = Some \<lparr>data = Null, errors = []\<rparr>)
 \<and> (i \<notin> memberType_id ` set (memberType_rows s) \<longrightarrow>
      executeFieldOf (query_fields schema) ''memberType''
          (fst (RootQuery_memberType_resolve (Str i) s))
        = Some \<lparr>data = Null, errors = []\<rparr>)
 \<and> executeFieldOf (query_fields schema) ''users'' (fst (RootQuery_users_resolve dm s))
      = Some \<lparr>data = Array (user_rows s), errors = []\<rparr>
 \<and> executeFieldOf (query_fields schema) ''posts'' (fst (RootQuery_posts_resolve s))
      = Some \<lparr>data = Array (post_rows s), errors = []\<rparr>
 \<and> executeFieldOf (query_fields schema) ''profiles'' (fst (RootQuery_profiles_resolve s))
      = Some \<lparr>data = Array (profile_rows s), errors = []\<rparr>
 \<and> executeFieldOf (query_fields schema) ''memberTypes'' (fst (RootQuery_memberTypes_resolve s))
      = Some \<lparr>data = Array (memberType_rows s), errors = []\<rparr>"
  by (simp add: RootQuery_user_resolve_def RootQuery_post_resolve_def
      RootQuery_profile_resolve_def RootQuery_memberType_resolve_def
      RootQuery_users_resolve_def RootQuery_posts_resolve_def
      RootQuery_profiles_resolve_def RootQuery_memberTypes_resolve_def
      memberType_findMany_def profile_findMany_def
      unique_row_absent execute_root_null execute_root_array)

theorem root_lookups_absent_null_plural_list_witness:
  "''zz'' \<notin> user_id ` set (user_rows ex_db)
 \<and> ''zz'' \<notin> post_id ` set (post_rows ex_db)
 \<and> ''zz'' \<notin> profile_id ` set (profile_rows ex_db)
 \<and> ''BUSINESS'' \<notin> memberType_id ` set (memberType_rows ex_db)
 \<and> executeFieldOf (query_fields schema) ''user'' (fst (RootQuery_user_resolve ''zz'' ex_db))
      = Some \<lparr>data = Null, errors = []\<rparr>
 \<and> executeFieldOf (query_fields schema) ''post'' (fst (RootQuery_post_resolve ''zz'' ex_db))
      = Some \<lparr>data = Null, errors = []\<rparr>
 \<and> executeFieldOf (query_fields schema) ''profile''
        (fst (RootQuery_profile_resolve ''zz'' ex_db))
      = Some \<lparr>data = Null, errors = []\<rparr>
 \<and> executeFieldOf (query_fields schema) ''memberType''
        (fst (RootQuery_memberType_resolve (Str ''BUSINESS'') ex_db))
      = Some \<lparr>data = Null, errors = []\<rparr>
 \<and> executeFieldOf (query_fields schema) ''users''
        (fst (RootQuery_users_resolve prisma_datamodel ex_db))
      = Some \<lparr>data = Array [alice, bob], errors = []\<rparr>"
proof -
  have h: "''zz'' \<notin> user_id ` set (user_rows ex_db)"
    "''zz'' \<notin> post_id ` set (post_rows ex_db)"
    "''zz'' \<notin> profile_id ` set (profile_rows ex_db)"
    "''BUSINESS'' \<notin> memberType_id ` set (memberType_rows ex_db)"
    by (simp_all add: ex_defs)
  have r: "user_rows ex_db = [alice, bob]"
    by (simp add: ex_db_def)
  from h r
    root_lookups_absent_null_plural_list [of "''zz''" ex_db prisma_datamodel]
    root_lookups_absent_null_plural_list [of "''BUSINESS''" ex_db prisma_datamodel]
  show ?thesis by simp
qed

text \<open>
  Claim C6: for the identifier of a stored user, the root lookup \<open>user(id)\<close> resolves to
  a row, not \<open>null\<close>, whose \<open>id\<close> is the identifier asked for, and completion adds no
  error.
\<close>

theorem RootQuery_user_found:
  assumes "i \<in> user_id ` set (user_rows s)"
  shows "\<exists>u. executeFieldOf (query_fields schema) ''user'' (fst (RootQuery_user_resolve i s))
               = Some \<lparr>data = Obj u, errors = []\<rparr>
           \<and> user_id u = i \<and> u \<in> set (user_rows s)"
  using unique_row_present [OF assms]
  by (auto simp: RootQuery_user_resolve_def execute_root_user_obj)

theorem RootQuery_user_found_witness:
  "''u2'' \<in> user_id ` set (user_rows ex_db)
   \<and> (\<exists>u. executeFieldOf (query_fields schema) ''user''
               (fst (RootQuery_user_resolve ''u2'' ex_db))
             = Some \<lparr>data = Obj u, errors = []\<rparr>
          \<and> user_id u = ''u2'' \<and> u \<in> set (user_rows ex_db))"
proof -
  have h: "''u2'' \<in> user_id ` set (user_rows ex_db)"
    by (simp add: ex_defs)
  from RootQuery_user_found [OF h] h show ?thesis by simp
qed

text \<open>
  The shape of the root fields that does hold: each plural field takes no argument and
  has a list type, each singular field takes the one argument \<open>id\<close> and has a nullable
  object type (one or none).
\<close>

lemma root_field_shapes:
  "\<forall>n \<in> set [''memberTypes'', ''users'', ''posts'', ''profiles''].
     \<exists>f. root_field n = Some f \<and> field_args f = [] \<and> is_list (field_type f)"
  "\<forall>n \<in> set [''memberType'', ''user'', ''post'', ''profile''].
     \<exists>f. root_field n = Some f \<and> map fst (field_args f) = [''id'']
       \<and> \<not> is_non_null (field_type f) \<and> \<not> is_list (field_type f)"
  by (simp_all add: root_fields MemberTypeListType_def UserList_def Posts_def ProfileList_def
      MemberType_def User_def Post_def Profile_def)

text \<open>
  Claim C5: every singular root field takes an \<open>id\<close> argument that the schema declares
  required (non-null), \<open>memberType\<close> included. The declarations of \<open>user\<close>, \<open>post\<close> and
  \<open>profile\<close> wrap the argument type in \<open>GraphQLNonNull\<close>; the declaration of
  \<open>memberType\<close> does not: its argument has the bare enum type, so a query may leave it
  out (or pass \<open>null\<close>), and the resolver then calls \<open>findUnique\<close> without a key, which the
  client rejects.
\<close>

theorem memberType_id_argument_not_required:
  "arg_required ''user'' ''id'' \<and> arg_required ''post'' ''id'' \<and> arg_required ''profile'' ''id''
   \<and> arg_type ''memberType'' ''id'' = Some MemberTypeId
   \<and> arg_required ''memberType'' ''id'' = False
   \<and> fst (RootQuery_memberType_resolve Undefined ex_db) = Inl PrismaClientValidationError
   \<and> fst (RootQuery_memberType_resolve JsNull ex_db) = Inl PrismaClientValidationError"
  by (simp add: arg_required_def arg_type_def root_fields MemberTypeId_def
      RootQuery_memberType_resolve_def unique_row_undefined)

subsection \<open>Nested lookups\<close>

text \<open>
  Claim C4, as stated: \<open>User.posts\<close> returns the posts whose author reference is the
  parent's identifier (an empty list when there are none), and \<open>null\<close> only when the
  parent has no identifier at all. A parent whose identifier is the empty string has an
  identifier, and no stored post has the empty string as author; the resolver returns
  \<open>null\<close> for it, not the empty list.
\<close>

theorem User_posts_empty_id_counterexample:
  "parent_id \<lparr>parent_id = Str ''''\<rparr> \<noteq> Undefined
   \<and> parent_id \<lparr>parent_id = Str ''''\<rparr> \<noteq> JsNull
   \<and> filter (\<lambda>p. Str (post_authorId p) = parent_id \<lparr>parent_id = Str ''''\<rparr>) (post_rows ex_db)
       = []
   \<and> fst (User_posts_resolve \<lparr>parent_id = Str ''''\<rparr> ex_db) = Inr Null
   \<and> fst (User_posts_resolve \<lparr>parent_id = Str ''''\<rparr> ex_db) \<noteq> Inr (Array [])"
  by (simp add: User_posts_resolve_def ex_defs)

text \<open>
  Claim C4, amended: \<open>User.posts\<close> returns \<open>null\<close> when the parent's identifier is absent
  (\<open>undefined\<close> or \<open>null\<close>) or the empty string, the falsy values of \<open>if (parent.id)\<close>; for
  every other parent it
  returns the array of the stored posts whose author reference equals the parent's
  identifier, empty when there are none.
\<close>

theorem User_posts_resolve_result:
  "fst (User_posts_resolve parent s) =
     (case parent_id parent of
        Undefined \<Rightarrow> Inr Null
      | JsNull \<Rightarrow> Inr Null
      | Str i \<Rightarrow>
          if i = [] then Inr Null
          else Inr (Array (filter (\<lambda>p. post_authorId p = i) (post_rows s))))"
  by (cases "parent_id parent") (simp_all add: User_posts_resolve_def post_matches_authorId)

text \<open>
  The two nested resolvers of claim C7 are point lookups: \<open>User.profile\<close> returns the
  first stored profile whose owning-user reference is the parent's identifier,
  \<open>Profile.memberType\<close> the first stored member type whose identifier is the parent's
  stored reference, and \<open>null\<close> when there is none.
\<close>

lemma User_profile_point_lookup:
  "fst (User_profile_resolve (user_as_parent u) s) =
     (case find (\<lambda>q. profile_userId q = user_id u) (profile_rows s) of
        None \<Rightarrow> Inr Null
      | Some q \<Rightarrow> Inr (Obj q))"
  by (simp add: User_profile_resolve_def user_as_parent_def unique_row_find)

lemma Profile_memberType_point_lookup:
  "fst (Profile_memberType_resolve (profile_as_parent p) s) =
     (case find (\<lambda>x. memberType_id x = profile_memberTypeId p) (memberType_rows s) of
        None \<Rightarrow> Inr Null
      | Some x \<Rightarrow> Inr (Obj x))"
  by (simp add: Profile_memberType_resolve_def profile_as_parent_def unique_row_find)

lemma MemberType_id_leaf_enum:
  "MemberType_id_leaf m =
     Some (if memberType_id m \<in> set [''BASIC'', ''BUSINESS'']
           then \<lparr>data = Obj (memberType_id m), errors = []\<rparr>
           else \<lparr>data = Null, errors = [EnumCannotRepresentValue]\<rparr>)"
  by (simp add: MemberType_id_leaf_def MemberType_fields_def MemberTypeId_def)

text \<open>
  Claim C7: for a stored user U that owns a profile P whose \<open>memberTypeId\<close> is the
  identifier of a stored member type M, the nested query
  \<open>user(id) { profile { memberType { id } } }\<close> resolves to M's identifier. Level by
  level: \<open>user\<close> finds a stored row with U's identifier; \<open>User.profile\<close> is the point
  lookup by the owning-user reference and finds P; \<open>Profile.memberType\<close> is the point
  lookup by P's stored member-type reference and finds a stored member type with that
  identifier, which is M's; no level adds an error; and the leaf \<open>id\<close> is that identifier
  when it is one of the enumerated tiers (as the data model has it). A user owns at most
  one profile: the owning-user reference is a unique key.
\<close>

theorem user_profile_memberType_chain:
  assumes "u \<in> set (user_rows s)"
    and "p \<in> set (profile_rows s)" and "profile_userId p = user_id u"
    and "distinct (map profile_userId (profile_rows s))"
    and "m \<in> set (memberType_rows s)" and "memberType_id m = profile_memberTypeId p"
  shows "\<exists>u' m'.
           executeFieldOf (query_fields schema) ''user''
               (fst (RootQuery_user_resolve (user_id u) s))
             = Some \<lparr>data = Obj u', errors = []\<rparr>
         \<and> u' \<in> set (user_rows s) \<and> user_id u' = user_id u
         \<and> fst (User_profile_resolve (user_as_parent u') s) =
             (case find (\<lambda>q. profile_userId q = user_id u) (profile_rows s) of
                None \<Rightarrow> Inr Null
              | Some q \<Rightarrow> Inr (Obj q))
         \<and> executeFieldOf User_fields ''profile''
               (fst (User_profile_resolve (user_as_parent u') s))
             = Some \<lparr>data = Obj p, errors = []\<rparr>
         \<and> fst (Profile_memberType_resolve (profile_as_parent p) s) =
             (case find (\<lambda>x. memberType_id x = profile_memberTypeId p) (memberType_rows s) of
                None \<Rightarrow> Inr Null
              | Some x \<Rightarrow> Inr (Obj x))
         \<and> executeFieldOf Profile_fields ''memberType''
               (fst (Profile_memberType_resolve (profile_as_parent p) s))
             = Some \<lparr>data = Obj m', errors = []\<rparr>
         \<and> m' \<in> set (memberType_rows s)
         \<and> memberType_id m' = profile_memberTypeId p
         \<and> memberType_id m' = memberType_id m
         \<and> (memberType_id m \<in> set [''BASIC'', ''BUSINESS''] \<longrightarrow>
              MemberType_id_leaf m' = Some \<lparr>data = Obj (memberType_id m), errors = []\<rparr>)"
proof -
  from assms(1) have "user_id u \<in> user_id ` set (user_rows s)"
    by simp
  from unique_row_present [OF this] obtain u' where
    u': "unique_row user_id (Str (user_id u)) (user_rows s) = Inr (Obj u')"
      "u' \<in> set (user_rows s)" "user_id u' = user_id u"
    by blast
  from assms(2,3) have "user_id u \<in> profile_userId ` set (profile_rows s)"
    by force
  from unique_row_present [OF this] obtain p' where
    p': "unique_row profile_userId (Str (user_id u)) (profile_rows s) = Inr (Obj p')"
      "p' \<in> set (profile_rows s)" "profile_userId p' = user_id u"
    by blast
  from assms(4) p'(2,3) assms(2,3) have same: "p' = p"
    by (metis distinct_map inj_onD)
  from assms(5,6) have "profile_memberTypeId p \<in> memberType_id ` set (memberType_rows s)"
    by force
  from unique_row_present [OF this] obtain m' where
    m': "unique_row memberType_id (Str (profile_memberTypeId p)) (memberType_rows s)
           = Inr (Obj m')"
      "m' \<in> set (memberType_rows s)" "memberType_id m' = profile_memberTypeId p"
    by blast
  have user: "executeFieldOf (query_fields schema) ''user''
      (fst (RootQuery_user_resolve (user_id u) s)) = Some \<lparr>data = Obj u', errors = []\<rparr>"
    using u'(1) by (simp add: RootQuery_user_resolve_def execute_root_user_obj)
  have prof_lookup: "fst (User_profile_resolve (user_as_parent u') s) =
      (case find (\<lambda>q. profile_userId q = user_id u) (profile_rows s) of
         None \<Rightarrow> Inr Null | Some q \<Rightarrow> Inr (Obj q))"
    using User_profile_point_lookup [of u' s] u'(3) by simp
  have prof: "executeFieldOf User_fields ''profile''
      (fst (User_profile_resolve (user_as_parent u') s)) = Some \<lparr>data = Obj p, errors = []\<rparr>"
    using p'(1) same u'(3)
    by (simp add: User_profile_resolve_def user_as_parent_def execute_nested_obj)
  have mt: "executeFieldOf Profile_fields ''memberType''
      (fst (Profile_memberType_resolve (profile_as_parent p) s))
        = Some \<lparr>data = Obj m', errors = []\<rparr>"
    using m'(1)
    by (simp add: Profile_memberType_resolve_def profile_as_parent_def execute_nested_obj)
  have leaf: "memberType_id m \<in> set [''BASIC'', ''BUSINESS''] \<longrightarrow>
      MemberType_id_leaf m' = Some \<lparr>data = Obj (memberType_id m), errors = []\<rparr>"
    using m'(3) assms(6) by (simp add: MemberType_id_leaf_enum)
  from user u'(2,3) prof_lookup prof Profile_memberType_point_lookup [of p s] mt m'(2,3)
    assms(6) leaf
  show ?thesis by (intro exI [of _ u'] exI [of _ m']) simp
qed

theorem user_profile_memberType_chain_witness:
  "alice \<in> set (user_rows ex_db)
   \<and> hd (profile_rows ex_db) \<in> set (profile_rows ex_db)
   \<and> profile_userId (hd (profile_rows ex_db)) = user_id alice
   \<and> distinct (map profile_userId (profile_rows ex_db))
   \<and> hd (memberType_rows ex_db) \<in> set (memberType_rows ex_db)
   \<and> memberType_id (hd (memberType_rows ex_db)) = profile_memberTypeId (hd (profile_rows ex_db))
   \<and> memberType_id (hd (memberType_rows ex_db)) \<in> set [''BASIC'', ''BUSINESS'']
   \<and> (\<exists>u' m'.
         executeFieldOf (query_fields schema) ''user''
             (fst (RootQuery_user_resolve (user_id alice) ex_db))
           = Some \<lparr>data = Obj u', errors = []\<rparr>
       \<and> u' \<in> set (user_rows ex_db)
       \<and> executeFieldOf User_fields ''profile''
             (fst (User_profile_resolve (user_as_parent u') ex_db))
           = Some \<lparr>data = Obj (hd (profile_rows ex_db)), errors = []\<rparr>
       \<and> executeFieldOf Profile_fields ''memberType''
             (fst (Profile_memberType_resolve (profile_as_parent (hd (profile_rows ex_db))) ex_db))
           = Some \<lparr>data = Obj m', errors = []\<rparr>
       \<and> m' \<in> set (memberType_rows ex_db)
       \<and> MemberType_id_leaf m' = Some \<lparr>data = Obj ''BASIC'', errors = []\<rparr>)"
proof -
  have h: "alice \<in> set (user_rows ex_db)"
    "hd (profile_rows ex_db) \<in> set (profile_rows ex_db)"
    "profile_userId (hd (profile_rows ex_db)) = user_id alice"
    "distinct (map profile_userId (profile_rows ex_db))"
    "hd (memberType_rows ex_db) \<in> set (memberType_rows ex_db)"
    "memberType_id (hd (memberType_rows ex_db)) = profile_memberTypeId (hd (profile_rows ex_db))"
    by (simp_all add: ex_defs)
  have b: "memberType_id (hd (memberType_rows ex_db)) = ''BASIC''"
    by (simp add: ex_db_def)
  have e: "memberType_id (hd (memberType_rows ex_db)) \<in> set [''BASIC'', ''BUSINESS'']"
    by (simp add: ex_db_def)
  from user_profile_memberType_chain [OF h] obtain u' m' where
    r: "executeFieldOf (query_fields schema) ''user''
          (fst (RootQuery_user_resolve (user_id alice) ex_db))
          = Some \<lparr>data = Obj u', errors = []\<rparr>"
      "u' \<in> set (user_rows ex_db)"
      "executeFieldOf User_fields ''profile''
          (fst (User_profile_resolve (user_as_parent u') ex_db))
          = Some \<lparr>data = Obj (hd (profile_rows ex_db)), errors = []\<rparr>"
      "executeFieldOf Profile_fields ''memberType''
          (fst (Profile_memberType_resolve (profile_as_parent (hd (profile_rows ex_db))) ex_db))
          = Some \<lparr>data = Obj m', errors = []\<rparr>"
      "m' \<in> set (memberType_rows ex_db)"
      "memberType_id (hd (memberType_rows ex_db)) \<in> set [''BASIC'', ''BUSINESS''] \<longrightarrow>
         MemberType_id_leaf m'
           = Some \<lparr>data = Obj (memberType_id (hd (memberType_rows ex_db))), errors = []\<rparr>"
    by blast
  from r(6) e b have "MemberType_id_leaf m' = Some \<lparr>data = Obj ''BASIC'', errors = []\<rparr>"
    by simp
  with r(1-5) h e show ?thesis by blast
qed

text \<open>
  Claim C9, as stated: for every parent, also one without an identifier, the resolvers of
  \<open>userSubscribedTo\<close> and \<open>subscribedToUser\<close> return the list of the collection lookup.
  A parent whose identifier is \<open>null\<close> is such a parent (it is one of those the guard of
  \<open>User.posts\<close> catches): the where-clause carries the \<open>null\<close>, the client rejects the
  call, and the resolver ends with that error, not with a list.
\<close>

theorem subscription_fields_null_id_counterexample:
  "fst (User_userSubscribedTo_resolve prisma_datamodel \<lparr>parent_id = JsNull\<rparr> ex_db)
     = Inl PrismaClientValidationError
   \<and> fst (User_subscribedToUser_resolve prisma_datamodel \<lparr>parent_id = JsNull\<rparr> ex_db)
     = Inl PrismaClientValidationError
   \<and> rows_of (fst (User_userSubscribedTo_resolve prisma_datamodel \<lparr>parent_id = JsNull\<rparr> ex_db))
     = []
   \<and> fst (User_posts_resolve \<lparr>parent_id = JsNull\<rparr> ex_db) = Inr Null"
  by (simp add: User_userSubscribedTo_resolve_def User_subscribedToUser_resolve_def
      User_posts_resolve_def)

text \<open>
  Claim C9, amended: the resolvers of \<open>userSubscribedTo\<close> and \<open>subscribedToUser\<close> do not
  test the parent's identifier; they make the collection lookup for every parent and
  never return \<open>null\<close>. When the identifier is a string, also the empty one, or is missing
  (\<open>undefined\<close>), they return the array of the lookup; when it is \<open>null\<close> the lookup is
  rejected and the resolver ends with the client's validation error. \<open>User.posts\<close>, with
  its guard, returns \<open>null\<close> for the missing, the \<open>null\<close> and the empty identifier.
\<close>

theorem subscription_fields_never_null:
  "fst (User_userSubscribedTo_resolve dm parent s) =
     (if parent_id parent = JsNull then Inl PrismaClientValidationError
      else Inr (Array (filter
        (user_matches dm s (Where_subscribedToUser_some (Where_subscriberId (parent_id parent))))
        (user_rows s))))
 \<and> fst (User_subscribedToUser_resolve dm parent s) =
     (if parent_id parent = JsNull then Inl PrismaClientValidationError
      else Inr (Array (filter
        (user_matches dm s (Where_userSubscribedTo_some (Where_authorId (parent_id parent))))
        (user_rows s))))
 \<and> fst (User_userSubscribedTo_resolve dm parent s) \<noteq> Inr Null
 \<and> fst (User_subscribedToUser_resolve dm parent s) \<noteq> Inr Null
 \<and> fst (User_posts_resolve \<lparr>parent_id = Undefined\<rparr> s) = Inr Null
 \<and> fst (User_posts_resolve \<lparr>parent_id = JsNull\<rparr> s) = Inr Null
 \<and> fst (User_posts_resolve \<lparr>parent_id = Str []\<rparr> s) = Inr Null"
  by (cases "parent_id parent")
     (simp_all add: User_userSubscribedTo_resolve_def User_subscribedToUser_resolve_def
      User_posts_resolve_def)

subsection \<open>Effects\<close>

text \<open>
  Claim C8: every resolver of the schema is a pure read. Whatever the parent, the
  argument and the stored state, the state after the resolver has run is the state before:
  each of the thirteen resolvers makes one \<open>findUnique\<close> or \<open>findMany\<close> call, or none.
  The fields without a resolver of their own (\<open>id\<close>, \<open>name\<close>, and so on) read a property
  of the parent and do not reach the handle.
\<close>

theorem resolvers_leave_state_unchanged:
  "snd (Profile_memberType_resolve pp s) = s
 \<and> snd (User_profile_resolve up s) = s
 \<and> snd (User_posts_resolve up s) = s
 \<and> snd (User_userSubscribedTo_resolve dm up s) = s
 \<and> snd (User_subscribedToUser_resolve dm up s) = s
 \<and> snd (RootQuery_memberTypes_resolve s) = s
 \<and> snd (RootQuery_memberType_resolve mid s) = s
 \<and> snd (RootQuery_users_resolve dm s) = s
 \<and> snd (RootQuery_user_resolve i s) = s
 \<and> snd (RootQuery_posts_resolve s) = s
 \<and> snd (RootQuery_post_resolve i s) = s
 \<and> snd (RootQuery_profiles_resolve s) = s
 \<and> snd (RootQuery_profile_resolve i s) = s"
  by (simp add: Profile_memberType_resolve_def User_profile_resolve_def User_posts_resolve_def
      User_userSubscribedTo_resolve_def User_subscribedToUser_resolve_def
      RootQuery_memberTypes_resolve_def RootQuery_memberType_resolve_def
      RootQuery_users_resolve_def RootQuery_user_resolve_def RootQuery_posts_resolve_def
      RootQuery_post_resolve_def RootQuery_profiles_resolve_def RootQuery_profile_resolve_def
      memberType_findMany_def profile_findMany_def)

subsection \<open>The handler\<close>

text \<open>
  Claim C10: two runs of the handler on requests with the same body (query and
  variables), over the same stored state, give the same response, whatever else the
  requests carry and whatever the engine is: the handler passes on the body, the schema
  and the handle, nothing more.
\<close>

theorem handler_depends_on_body_only:
  assumes "body r1 = body r2"
  shows "handler graphql r1 s = handler graphql r2 s"
  using assms by (simp add: handler_def)

theorem handler_depends_on_body_only_witness:
  "body ex_req1 = body ex_req2 \<and> ex_req1 \<noteq> ex_req2
   \<and> handler ex_graphql ex_req1 ex_db = handler ex_graphql ex_req2 ex_db"
proof -
  have h: "body ex_req1 = body ex_req2"
    by (simp add: ex_req1_def ex_req2_def)
  have d: "ex_req1 \<noteq> ex_req2"
    by (simp add: ex_req1_def ex_req2_def)
  from h d handler_depends_on_body_only [OF h, of ex_graphql ex_db] show ?thesis by simp
qed

end
